theory Spec2Isabelle
  imports Complex_Main "HOL-Library.Word"
begin

section \<open>RGBPlaneCoefficientComparator (rgb\_plane\_coefficient\_comparator.h)\<close>

text \<open>
  A shallow embedding of the class template \<open>pcl::RGBPlaneCoefficientComparator\<close>.
  The C++ types \<open>float\<close> and \<open>double\<close> are modelled as \<open>real\<close>: arithmetic is exact,
  there is no rounding, no NaN and no infinity, and \<open>cosf\<close>, \<open>acosf\<close> and \<open>sqrt\<close> are
  the real functions \<open>cos\<close>, \<open>arccos\<close> and \<open>sqrt\<close>. The theorems below are those whose
  truth does not turn on that reading: what the constructors store, the symmetry of the
  comparison, the rejection under a zero threshold, the frame of \<open>compare\<close>, and its
  independence of the plane coefficients. Nothing is stated here about the value of a
  rounded distance, dot product, cosine or square.
\<close>

subsection \<open>Data\<close>

text \<open>
  Modelled from the spec: the point type \<open>PointT\<close> is a template parameter whose
  declaration is not part of the header. The comparator reads the fields \<open>x\<close>, \<open>y\<close>,
  \<open>z\<close> (floating-point position) and \<open>r\<close>, \<open>g\<close>, \<open>b\<close> (colour channels, small
  unsigned integers: one byte each).
\<close>

record PointT =
  x :: real
  y :: real
  z :: real
  r :: "8 word"
  g :: "8 word"
  b :: "8 word"

text \<open>
  Modelled from the spec: the normal type \<open>PointNT\<close> is a template parameter as well;
  the comparator only calls \<open>getNormalVector3fMap\<close> on it, the view of its three
  components as a vector, and the vector's \<open>dot\<close>.
\<close>

record PointNT =
  normal_x :: real
  normal_y :: real
  normal_z :: real

type_synonym Vector3f = "real \<times> real \<times> real"

definition getNormalVector3fMap :: "PointNT \<Rightarrow> Vector3f" where
  "getNormalVector3fMap n = (normal_x n, normal_y n, normal_z n)"

fun dot :: "Vector3f \<Rightarrow> Vector3f \<Rightarrow> real" where
  "dot (a1, a2, a3) (b1, b2, b3) = a1 * b1 + a2 * b2 + a3 * b3"

text \<open>
  The object: the members inherited from \<open>Comparator\<close> and \<open>PlaneCoefficientComparator\<close>
  that the class names in its \<open>using\<close> declarations, and its own three thresholds.
  A shared pointer is \<open>None\<close> when null and \<open>Some\<close> of the pointed-to sequence
  otherwise. A member name of the source ends in an underscore, which a constant name
  cannot: the underscore is written \<open>_m\<close> here.
\<close>

record comparator =
  input_m :: "PointT list option"
  normals_m :: "PointNT list option"
  plane_coeff_d_m :: "real list option"
  angular_threshold_m :: real
  distance_threshold_m :: real
  color_threshold_m :: real

subsection \<open>Constructors\<close>

text \<open>
  Modelled from the spec: the base-class constructors are not in the header; they leave
  \<open>input_m\<close>, \<open>normals_m\<close> and \<open>plane_coeff_d_m\<close> null. The member initialiser list
  is the one of the source, \<open>angular_threshold_m (0), distance_threshold_m (0.02),
  color_threshold_m (50.0)\<close>, for both constructors.
\<close>

definition RGBPlaneCoefficientComparator :: comparator where
  "RGBPlaneCoefficientComparator =
     \<lparr>input_m = None, normals_m = None, plane_coeff_d_m = None,
      angular_threshold_m = 0, distance_threshold_m = 0.02, color_threshold_m = 50.0\<rparr>"

text \<open>The second constructor takes \<open>plane_coeff_d\<close> and has the same initialiser list and
  the same empty body.\<close>

definition RGBPlaneCoefficientComparator_coeff :: "real list option \<Rightarrow> comparator" where
  "RGBPlaneCoefficientComparator_coeff plane_coeff_d =
     \<lparr>input_m = None, normals_m = None, plane_coeff_d_m = None,
      angular_threshold_m = 0, distance_threshold_m = 0.02, color_threshold_m = 50.0\<rparr>"

subsection \<open>Configuration\<close>

text \<open>Modelled from the spec: \<open>setInputCloud\<close> belongs to the base class \<open>Comparator\<close>,
  which is not in the header; it installs the point sequence.\<close>

definition setInputCloud :: "PointT list option \<Rightarrow> comparator \<Rightarrow> comparator" where
  "setInputCloud cloud c = c\<lparr>input_m := cloud\<rparr>"

definition setInputNormals :: "PointNT list option \<Rightarrow> comparator \<Rightarrow> comparator" where
  "setInputNormals normals c = c\<lparr>normals_m := normals\<rparr>"

definition getInputNormals :: "comparator \<Rightarrow> PointNT list option" where
  "getInputNormals c = normals_m c"

text \<open>The overload taking a shared pointer stores the pointer.\<close>

definition setPlaneCoeffD :: "real list option \<Rightarrow> comparator \<Rightarrow> comparator" where
  "setPlaneCoeffD plane_coeff_d c = c\<lparr>plane_coeff_d_m := plane_coeff_d\<rparr>"

text \<open>The overload taking a vector stores a pointer to a fresh copy of it.\<close>

definition setPlaneCoeffD_vector :: "real list \<Rightarrow> comparator \<Rightarrow> comparator" where
  "setPlaneCoeffD_vector plane_coeff_d c = c\<lparr>plane_coeff_d_m := Some plane_coeff_d\<rparr>"

definition setAngularThreshold :: "real \<Rightarrow> comparator \<Rightarrow> comparator" where
  "setAngularThreshold angular_threshold c = c\<lparr>angular_threshold_m := cos angular_threshold\<rparr>"

definition getAngularThreshold :: "comparator \<Rightarrow> real" where
  "getAngularThreshold c = arccos (angular_threshold_m c)"

definition setDistanceThreshold :: "real \<Rightarrow> comparator \<Rightarrow> comparator" where
  "setDistanceThreshold distance_threshold c =
     c\<lparr>distance_threshold_m := distance_threshold * distance_threshold\<rparr>"

definition getDistanceThreshold :: "comparator \<Rightarrow> real" where
  "getDistanceThreshold c = distance_threshold_m c"

definition setColorThreshold :: "real \<Rightarrow> comparator \<Rightarrow> comparator" where
  "setColorThreshold color_threshold c = c\<lparr>color_threshold_m := color_threshold * color_threshold\<rparr>"

definition getColorThreshold :: "comparator \<Rightarrow> real" where
  "getColorThreshold c = color_threshold_m c"

subsection \<open>The comparison\<close>

text \<open>
  \<open>points[idx]\<close> with an index outside the sequence, and dereferencing a null pointer,
  are undefined behaviour: the model returns \<open>None\<close> there. A colour channel is
  promoted to \<open>int\<close> before the subtraction. The conjunction is evaluated left to
  right and stops at the first false operand, so the normals are read only when the
  distance test has passed.
\<close>

definition in_range :: "'a list \<Rightarrow> int \<Rightarrow> bool" where
  "in_range xs idx = (0 \<le> idx \<and> idx < int (length xs))"

definition elem :: "'a list \<Rightarrow> int \<Rightarrow> 'a" where
  "elem xs idx = xs ! nat idx"

definition compare :: "comparator \<Rightarrow> int \<Rightarrow> int \<Rightarrow> bool option" where
  "compare c idx1 idx2 =
     (case input_m c of
        None \<Rightarrow> None
      | Some points \<Rightarrow>
          if \<not> (in_range points idx1 \<and> in_range points idx2) then None
          else
            let dx = x (elem points idx1) - x (elem points idx2);
                dy = y (elem points idx1) - y (elem points idx2);
                dz = z (elem points idx1) - z (elem points idx2);
                dist = sqrt (dx * dx + dy * dy + dz * dz);
                dr = uint (r (elem points idx1)) - uint (r (elem points idx2));
                dg = uint (g (elem points idx1)) - uint (g (elem points idx2));
                db = uint (b (elem points idx1)) - uint (b (elem points idx2));
                color_dist = real_of_int (dr * dr + dg * dg + db * db)
            in
              if \<not> (dist < distance_threshold_m c) then Some False
              else
                (case normals_m c of
                   None \<Rightarrow> None
                 | Some npoints \<Rightarrow>
                     if \<not> (in_range npoints idx1 \<and> in_range npoints idx2) then None
                     else if \<not> (dot (getNormalVector3fMap (elem npoints idx1))
                                       (getNormalVector3fMap (elem npoints idx2))
                                   > angular_threshold_m c)
                          then Some False
                          else Some (color_dist < color_threshold_m c)))"

subsection \<open>Calls on the object\<close>

text \<open>
  \<open>compare\<close> is a \<open>const\<close> member function: its body assigns to no member and to no
  element of either cloud. As a call on the object it yields its result together with
  the object it was called on, and nothing where the behaviour is undefined.
\<close>

definition compare_call :: "comparator \<Rightarrow> int \<Rightarrow> int \<Rightarrow> (bool \<times> comparator) option" where
  "compare_call c idx1 idx2 =
     (case compare c idx1 idx2 of None \<Rightarrow> None | Some res \<Rightarrow> Some (res, c))"

text \<open>A run of a caller up to a comparison is a sequence of configuration calls.\<close>

datatype call =
    SetInputCloud "PointT list option"
  | SetInputNormals "PointNT list option"
  | SetPlaneCoeffD "real list option"
  | SetPlaneCoeffD_vector "real list"
  | SetAngularThreshold real
  | SetDistanceThreshold real
  | SetColorThreshold real

fun exec :: "call \<Rightarrow> comparator \<Rightarrow> comparator" where
  "exec (SetInputCloud cloud) c = setInputCloud cloud c"
| "exec (SetInputNormals normals) c = setInputNormals normals c"
| "exec (SetPlaneCoeffD plane_coeff_d) c = setPlaneCoeffD plane_coeff_d c"
| "exec (SetPlaneCoeffD_vector plane_coeff_d) c = setPlaneCoeffD_vector plane_coeff_d c"
| "exec (SetAngularThreshold angular_threshold) c = setAngularThreshold angular_threshold c"
| "exec (SetDistanceThreshold distance_threshold) c = setDistanceThreshold distance_threshold c"
| "exec (SetColorThreshold color_threshold) c = setColorThreshold color_threshold c"

fun run :: "call list \<Rightarrow> comparator \<Rightarrow> comparator" where
  "run [] c = c"
| "run (k # ks) c = run ks (exec k c)"

fun sets_plane_coeff :: "call \<Rightarrow> bool" where
  "sets_plane_coeff (SetPlaneCoeffD _) = True"
| "sets_plane_coeff (SetPlaneCoeffD_vector _) = True"
| "sets_plane_coeff _ = False"

text \<open>The calls of a run other than those of \<open>setPlaneCoeffD\<close>, in their order.\<close>

fun other_calls :: "call list \<Rightarrow> call list" where
  "other_calls [] = []"
| "other_calls (k # ks) = (if sets_plane_coeff k then other_calls ks else k # other_calls ks)"

definition forget :: "comparator \<Rightarrow> comparator" where
  "forget c = c\<lparr>plane_coeff_d_m := None\<rparr>"

subsection \<open>The three measures, as the specification words them\<close>

text \<open>
  The Euclidean distance of two positions (the square root of the summed squared
  coordinate differences), the sum of the squared per-channel colour differences, and
  the dot product of two normals. \<open>compare\<close> above does not use them: they are what
  its result is compared with.
\<close>

definition euclidean_distance :: "PointT \<Rightarrow> PointT \<Rightarrow> real" where
  "euclidean_distance p q = sqrt ((x p - x q)\<^sup>2 + (y p - y q)\<^sup>2 + (z p - z q)\<^sup>2)"

definition squared_color_distance :: "PointT \<Rightarrow> PointT \<Rightarrow> int" where
  "squared_color_distance p q =
     (uint (r p) - uint (r q))\<^sup>2 + (uint (g p) - uint (g q))\<^sup>2 + (uint (b p) - uint (b q))\<^sup>2"

definition normal_dot :: "PointNT \<Rightarrow> PointNT \<Rightarrow> real" where
  "normal_dot m n = normal_x m * normal_x n + normal_y m * normal_y n + normal_z m * normal_z n"

subsection \<open>A concrete scene\<close>

text \<open>
  Two adjacent cells at \<open>(0, 0, 0)\<close> and \<open>(0, 0, 0.01)\<close> with colours
  \<open>(100, 100, 100)\<close> and \<open>(105, 100, 100)\<close>, both with the normal \<open>(0, 0, 1)\<close>, installed
  in a freshly constructed comparator.
\<close>

definition cell0 :: PointT where
  "cell0 = \<lparr>x = 0, y = 0, z = 0, r = 100, g = 100, b = 100\<rparr>"

definition cell1 :: PointT where
  "cell1 = \<lparr>x = 0, y = 0, z = 0.01, r = 105, g = 100, b = 100\<rparr>"

definition up :: PointNT where
  "up = \<lparr>normal_x = 0, normal_y = 0, normal_z = 1\<rparr>"

definition scene :: comparator where
  "scene = setInputNormals (Some [up, up]) (setInputCloud (Some [cell0, cell1])
     RGBPlaneCoefficientComparator)"

section \<open>Construction\<close>

lemma constructors_agree:
  "RGBPlaneCoefficientComparator_coeff plane_coeff_d = RGBPlaneCoefficientComparator"
  by (simp add: RGBPlaneCoefficientComparator_coeff_def RGBPlaneCoefficientComparator_def)

section \<open>The comparison in terms of the three measures\<close>

lemma compare_unfold:
  "compare c idx1 idx2 =
     (case input_m c of
        None \<Rightarrow> None
      | Some points \<Rightarrow>
          if \<not> (in_range points idx1 \<and> in_range points idx2) then None
          else if \<not> (euclidean_distance (elem points idx1) (elem points idx2)
                        < distance_threshold_m c) then Some False
          else
            (case normals_m c of
               None \<Rightarrow> None
             | Some npoints \<Rightarrow>
                 if \<not> (in_range npoints idx1 \<and> in_range npoints idx2) then None
                 else Some (normal_dot (elem npoints idx1) (elem npoints idx2)
                              > angular_threshold_m c
                          \<and> real_of_int (squared_color_distance (elem points idx1)
                                (elem points idx2)) < color_threshold_m c)))"
  unfolding compare_def Let_def euclidean_distance_def squared_color_distance_def
    normal_dot_def getNormalVector3fMap_def power2_eq_square dot.simps
  by (simp split: option.split)

lemma euclidean_distance_sym: "euclidean_distance p q = euclidean_distance q p"
  by (simp add: euclidean_distance_def power2_commute)

lemma squared_color_distance_sym: "squared_color_distance p q = squared_color_distance q p"
  by (simp add: squared_color_distance_def power2_commute)

lemma normal_dot_sym: "normal_dot m n = normal_dot n m"
  by (simp add: normal_dot_def mult.commute)

lemma compare_defined:
  assumes "input_m c = Some points" "normals_m c = Some npoints"
    and "in_range points idx1" "in_range points idx2"
    and "in_range npoints idx1" "in_range npoints idx2"
  shows "compare c idx1 idx2 =
     Some (euclidean_distance (elem points idx1) (elem points idx2) < distance_threshold_m c
         \<and> normal_dot (elem npoints idx1) (elem npoints idx2) > angular_threshold_m c
         \<and> real_of_int (squared_color_distance (elem points idx1) (elem points idx2))
             < color_threshold_m c)"
  using assms by (simp add: compare_unfold)

section \<open>What the setters write\<close>

lemma setters_frame [simp]:
  "input_m (setAngularThreshold a c) = input_m c"
  "normals_m (setAngularThreshold a c) = normals_m c"
  "distance_threshold_m (setAngularThreshold a c) = distance_threshold_m c"
  "color_threshold_m (setAngularThreshold a c) = color_threshold_m c"
  "angular_threshold_m (setAngularThreshold a c) = cos a"
  "input_m (setDistanceThreshold d c) = input_m c"
  "normals_m (setDistanceThreshold d c) = normals_m c"
  "angular_threshold_m (setDistanceThreshold d c) = angular_threshold_m c"
  "color_threshold_m (setDistanceThreshold d c) = color_threshold_m c"
  "distance_threshold_m (setDistanceThreshold d c) = d * d"
  "input_m (setColorThreshold k c) = input_m c"
  "normals_m (setColorThreshold k c) = normals_m c"
  "angular_threshold_m (setColorThreshold k c) = angular_threshold_m c"
  "distance_threshold_m (setColorThreshold k c) = distance_threshold_m c"
  "color_threshold_m (setColorThreshold k c) = k * k"
  by (simp_all add: setAngularThreshold_def setDistanceThreshold_def setColorThreshold_def)

lemma setters_transform_defaults:
  "angular_threshold_m (setAngularThreshold 0 c) = 1"
  "distance_threshold_m (setDistanceThreshold 0.02 c) = 0.0004"
  "color_threshold_m (setColorThreshold 50 c) = 2500"
  by simp_all

section \<open>Facts about the measures\<close>

lemma euclidean_distance_nonneg: "0 \<le> euclidean_distance p q"
  by (simp add: euclidean_distance_def)

lemma squared_color_distance_nonneg: "0 \<le> squared_color_distance p q"
  by (simp add: squared_color_distance_def)

section \<open>The concrete scene\<close>

lemma scene_fields:
  "input_m scene = Some [cell0, cell1]"
  "normals_m scene = Some [up, up]"
  "plane_coeff_d_m scene = None"
  "angular_threshold_m scene = 0"
  "distance_threshold_m scene = 0.02"
  "color_threshold_m scene = 50"
  by (simp_all add: scene_def setInputNormals_def setInputCloud_def
      RGBPlaneCoefficientComparator_def)

lemma in_range_two:
  "in_range [u, v] 0" "in_range [u, v] 1" "elem [u, v] 0 = u" "elem [u, v] 1 = v"
  by (simp_all add: in_range_def elem_def)

lemma scene_measures:
  "euclidean_distance cell0 cell1 = 0.01"
  "squared_color_distance cell0 cell1 = 25"
  "normal_dot up up = 1"
  "euclidean_distance cell0 cell0 = 0"
  "squared_color_distance cell0 cell0 = 0"
proof -
  have "sqrt ((1 / 100)\<^sup>2) = (1 / 100 :: real)"
    by simp
  then show "euclidean_distance cell0 cell1 = 0.01"
    by (simp add: euclidean_distance_def cell0_def cell1_def power2_eq_square)
  show "squared_color_distance cell0 cell1 = 25"
    by (simp add: squared_color_distance_def cell0_def cell1_def)
  show "normal_dot up up = 1"
    by (simp add: normal_dot_def up_def)
  show "euclidean_distance cell0 cell0 = 0"
    by (simp add: euclidean_distance_def)
  show "squared_color_distance cell0 cell0 = 0"
    by (simp add: squared_color_distance_def)
qed

section \<open>The colour arithmetic stays inside a 32-bit int\<close>

text \<open>\<open>dr*dr + dg*dg + db*db\<close> is computed in \<open>int\<close>; it is at most \<open>3 * 255\<^sup>2\<close>, so
  it neither overflows nor loses precision in the conversion to \<open>float\<close>.\<close>

lemma squared_color_distance_bound: "squared_color_distance p q \<le> 195075"
proof -
  have a: "(uint u - uint v)\<^sup>2 \<le> 65025" for u v :: "8 word"
  proof -
    have "uint u < 256" "uint v < 256"
      using uint_lt2p [of u] uint_lt2p [of v] by simp_all
    moreover have "0 \<le> uint u" "0 \<le> uint v"
      by simp_all
    ultimately have "\<bar>uint u - uint v\<bar> \<le> 255"
      by linarith
    then have "\<bar>uint u - uint v\<bar>\<^sup>2 \<le> 255\<^sup>2"
      by (rule power_mono) simp
    then show ?thesis by simp
  qed
  show ?thesis
    unfolding squared_color_distance_def
    using a [of "r p" "r q"] a [of "g p" "g q"] a [of "b p" "b q"] by linarith
qed

section \<open>The plane coefficients and the comparison\<close>

lemma compare_plane_coeff:
  "compare (c\<lparr>plane_coeff_d_m := v\<rparr>) idx1 idx2 = compare c idx1 idx2"
  by (simp add: compare_unfold split: option.split)

lemma compare_forget: "compare (forget c) idx1 idx2 = compare c idx1 idx2"
  by (simp add: forget_def compare_plane_coeff)

lemma forget_exec:
  "forget (exec k c) = (if sets_plane_coeff k then forget c else exec k (forget c))"
  by (cases k)
    (simp_all add: forget_def setInputCloud_def setInputNormals_def setPlaneCoeffD_def
      setPlaneCoeffD_vector_def setAngularThreshold_def setDistanceThreshold_def
      setColorThreshold_def)

lemma forget_run: "forget (run ks c) = forget (run (other_calls ks) (forget c))"
proof (induction ks arbitrary: c)
  case Nil
  show ?case by (simp add: forget_def)
next
  case (Cons k ks)
  have "forget (run (k # ks) c) = forget (run (other_calls ks) (forget (exec k c)))"
    using Cons.IH [of "exec k c"] by simp
  also have "\<dots> = forget (run (other_calls (k # ks)) (forget c))"
    by (simp add: forget_exec)
  finally show ?case .
qed

section \<open>Claims\<close>

text \<open>
  C2. The claim is that construction leaves the stored thresholds at 1, 0.0004 and 2500.
  Both constructors copy 0, 0.02 and 50 into the three members as they are: the cosine
  and the squares are taken by the setters only (\<open>setters_transform_defaults\<close>).
\<close>

theorem default_thresholds_are_untransformed:
  "angular_threshold_m RGBPlaneCoefficientComparator = 0
   \<and> distance_threshold_m RGBPlaneCoefficientComparator = 0.02
   \<and> color_threshold_m RGBPlaneCoefficientComparator = 50
   \<and> angular_threshold_m (RGBPlaneCoefficientComparator_coeff plane_coeff_d) = 0
   \<and> distance_threshold_m (RGBPlaneCoefficientComparator_coeff plane_coeff_d) = 0.02
   \<and> color_threshold_m (RGBPlaneCoefficientComparator_coeff plane_coeff_d) = 50
   \<and> angular_threshold_m RGBPlaneCoefficientComparator \<noteq> 1
   \<and> distance_threshold_m RGBPlaneCoefficientComparator \<noteq> 0.0004
   \<and> color_threshold_m RGBPlaneCoefficientComparator \<noteq> 2500"
  by (simp add: constructors_agree) (simp add: RGBPlaneCoefficientComparator_def)

text \<open>
  C4. \<open>compare\<close> is symmetric in its two indices, for every object and every pair of
  indices, also where it is undefined.
\<close>

theorem compare_symmetric: "compare c idx1 idx2 = compare c idx2 idx1"
  unfolding compare_unfold [of c idx1 idx2] compare_unfold [of c idx2 idx1]
  by (simp add: euclidean_distance_sym [of "elem _ idx1"]
      squared_color_distance_sym [of "elem _ idx1"]
      normal_dot_sym [of "elem _ idx1"] conj_commute split: option.split)

text \<open>
  C6. After \<open>setDistanceThreshold 0\<close>, \<open>compare\<close> returns false for every pair of indices
  inside the point cloud whose positions differ, whatever the normals and colours; after
  \<open>setColorThreshold 0\<close> it returns false for every pair of indices inside both clouds
  whose colours differ in some channel, whatever the positions and normals.
\<close>

theorem zero_thresholds_reject:
  "(input_m c = Some points \<and> in_range points idx1 \<and> in_range points idx2
      \<and> (x (elem points idx1) \<noteq> x (elem points idx2)
          \<or> y (elem points idx1) \<noteq> y (elem points idx2)
          \<or> z (elem points idx1) \<noteq> z (elem points idx2))
      \<longrightarrow> compare (setDistanceThreshold 0 c) idx1 idx2 = Some False)
   \<and> (input_m c = Some points \<and> normals_m c = Some npoints
      \<and> in_range points idx1 \<and> in_range points idx2
      \<and> in_range npoints idx1 \<and> in_range npoints idx2
      \<and> (r (elem points idx1) \<noteq> r (elem points idx2)
          \<or> g (elem points idx1) \<noteq> g (elem points idx2)
          \<or> b (elem points idx1) \<noteq> b (elem points idx2))
      \<longrightarrow> compare (setColorThreshold 0 c) idx1 idx2 = Some False)"
proof -
  have d: "\<not> euclidean_distance p q < 0" for p q
    using euclidean_distance_nonneg [of p q] by simp
  have k: "\<not> squared_color_distance p q < 0" for p q
    using squared_color_distance_nonneg [of p q] by simp
  have "compare (setDistanceThreshold 0 c) idx1 idx2 = Some False"
    if "input_m c = Some points" "in_range points idx1" "in_range points idx2"
    using that by (simp add: compare_unfold d)
  moreover have "compare (setColorThreshold 0 c) idx1 idx2 = Some False"
    if "input_m c = Some points" "normals_m c = Some npoints"
      "in_range points idx1" "in_range points idx2"
      "in_range npoints idx1" "in_range npoints idx2"
    using that by (simp add: compare_unfold k)
  ultimately show ?thesis by blast
qed

theorem zero_thresholds_reject_witness:
  "input_m scene = Some [cell0, cell1] \<and> normals_m scene = Some [up, up]
   \<and> in_range [cell0, cell1] 0 \<and> in_range [cell0, cell1] 1
   \<and> in_range [up, up] 0 \<and> in_range [up, up] 1
   \<and> z cell0 \<noteq> z cell1 \<and> r cell0 \<noteq> r cell1
   \<and> compare (setDistanceThreshold 0 scene) 0 1 = Some False
   \<and> compare (setColorThreshold 0 scene) 0 1 = Some False"
  using zero_thresholds_reject [of scene "[cell0, cell1]" 0 1 "[up, up]"]
  by (simp add: scene_fields in_range_two cell0_def cell1_def)

text \<open>
  C8. A call of \<open>compare\<close> that returns leaves the object as it was: the three stored
  thresholds, the plane-coefficient pointer, the point sequence and the normal sequence
  are the same after it as before. With both clouds installed and both indices inside
  them, the call does return.
\<close>

theorem compare_leaves_object_unchanged:
  "(compare_call c idx1 idx2 = Some (res, c') \<longrightarrow>
      c' = c
      \<and> angular_threshold_m c' = angular_threshold_m c
      \<and> distance_threshold_m c' = distance_threshold_m c
      \<and> color_threshold_m c' = color_threshold_m c
      \<and> plane_coeff_d_m c' = plane_coeff_d_m c
      \<and> input_m c' = input_m c
      \<and> normals_m c' = normals_m c)
   \<and> (input_m c = Some points \<and> normals_m c = Some npoints
        \<and> in_range points idx1 \<and> in_range points idx2
        \<and> in_range npoints idx1 \<and> in_range npoints idx2
      \<longrightarrow> (\<exists>res. compare_call c idx1 idx2 = Some (res, c)))"
  by (auto simp add: compare_call_def compare_unfold split: option.splits)

theorem compare_leaves_object_unchanged_witness:
  "compare_call scene 0 1 = Some (True, scene)
   \<and> input_m scene = Some [cell0, cell1] \<and> normals_m scene = Some [up, up]
   \<and> in_range [cell0, cell1] 0 \<and> in_range [cell0, cell1] 1
   \<and> in_range [up, up] 0 \<and> in_range [up, up] 1"
proof -
  have "compare scene 0 1 = Some True"
    by (simp add: compare_unfold scene_fields in_range_two scene_measures)
  then have "compare_call scene 0 1 = Some (True, scene)"
    by (simp add: compare_call_def)
  then show ?thesis
    using compare_leaves_object_unchanged [of scene 0 1 True scene "[cell0, cell1]" "[up, up]"]
    by (simp add: scene_fields in_range_two)
qed

text \<open>
  C9. Two runs of configuration calls from the same object that agree once their
  \<open>setPlaneCoeffD\<close> calls are left out (they differ in the values passed to it, in how
  often it is called, or in whether it is called at all) give the same result of
  \<open>compare\<close> for every pair of indices.
\<close>

theorem compare_ignores_plane_coefficients:
  assumes "other_calls ks1 = other_calls ks2"
  shows "compare (run ks1 c) idx1 idx2 = compare (run ks2 c) idx1 idx2"
proof -
  have "forget (run ks1 c) = forget (run ks2 c)"
    using assms by (simp add: forget_run [of ks1] forget_run [of ks2])
  then have "compare (forget (run ks1 c)) idx1 idx2 = compare (forget (run ks2 c)) idx1 idx2"
    by simp
  then show ?thesis
    by (simp only: compare_forget)
qed

theorem compare_ignores_plane_coefficients_witness:
  "other_calls [SetPlaneCoeffD_vector [1, 2], SetInputCloud (Some [cell0, cell1]),
                 SetInputNormals (Some [up, up])]
     = other_calls [SetInputCloud (Some [cell0, cell1]), SetPlaneCoeffD (Some [7, 8]),
                    SetInputNormals (Some [up, up]), SetPlaneCoeffD None]
   \<and> compare (run [SetPlaneCoeffD_vector [1, 2], SetInputCloud (Some [cell0, cell1]),
                 SetInputNormals (Some [up, up])] RGBPlaneCoefficientComparator) 0 1
     = compare (run [SetInputCloud (Some [cell0, cell1]), SetPlaneCoeffD (Some [7, 8]),
                    SetInputNormals (Some [up, up]), SetPlaneCoeffD None]
                  RGBPlaneCoefficientComparator) 0 1
   \<and> plane_coeff_d_m (run [SetPlaneCoeffD_vector [1, 2], SetInputCloud (Some [cell0, cell1]),
                 SetInputNormals (Some [up, up])] RGBPlaneCoefficientComparator) = Some [1, 2]
   \<and> plane_coeff_d_m (run [SetInputCloud (Some [cell0, cell1]), SetPlaneCoeffD (Some [7, 8]),
                    SetInputNormals (Some [up, up]), SetPlaneCoeffD None]
                  RGBPlaneCoefficientComparator) = None"
proof -
  have eq: "other_calls [SetPlaneCoeffD_vector [1, 2], SetInputCloud (Some [cell0, cell1]),
                 SetInputNormals (Some [up, up])]
     = other_calls [SetInputCloud (Some [cell0, cell1]), SetPlaneCoeffD (Some [7, 8]),
                    SetInputNormals (Some [up, up]), SetPlaneCoeffD None]"
    by simp
  show ?thesis
    using compare_ignores_plane_coefficients [OF eq, of RGBPlaneCoefficientComparator 0 1] eq
    by (simp add: setInputCloud_def setInputNormals_def setPlaneCoeffD_def
        setPlaneCoeffD_vector_def)
qed

text \<open>
  C10. The constructor taking \<open>plane_coeff_d\<close> ignores it: the object it builds is the one
  the empty constructor builds, with a null plane-coefficient pointer; the pointer is
  installed only by a later \<open>setPlaneCoeffD\<close>, in either overload.
\<close>

theorem coefficient_constructor_ignores_argument:
  "RGBPlaneCoefficientComparator_coeff plane_coeff_d = RGBPlaneCoefficientComparator
   \<and> plane_coeff_d_m (RGBPlaneCoefficientComparator_coeff plane_coeff_d) = None
   \<and> plane_coeff_d_m RGBPlaneCoefficientComparator = None
   \<and> plane_coeff_d_m (setPlaneCoeffD plane_coeff_d (RGBPlaneCoefficientComparator_coeff other))
       = plane_coeff_d
   \<and> plane_coeff_d_m (setPlaneCoeffD_vector coeffs (RGBPlaneCoefficientComparator_coeff other))
       = Some coeffs"
  by (simp add: constructors_agree setPlaneCoeffD_def setPlaneCoeffD_vector_def)
    (simp add: RGBPlaneCoefficientComparator_def)

end
